theory Spec2Isabelle
  imports Complex_Main
begin

section \<open>Conventions of the embedding\<close>

text \<open>
  The module \<^verbatim>\<open>src/triangulation/MeteorApplyAstrometry.py\<close> is Python 2 code over
  numpy arrays. One-dimensional float arrays are lists of reals, and a float operation
  is the exact operation on real numbers, with these exceptions, where what the floats
  do decides what the source returns:
  \<^item> an exception of the source is a value \<open>Inl e\<close> of the result;
  \<^item> the operator \<^verbatim>\<open>%\<close> rounds its result to a double where Python does, so that
    the remainder can be the divisor itself (\<open>pymod\<close> below);
  \<^item> a division of numpy scalars by zero raises nothing (numpy only warns) and gives
    an infinity or a NaN. In the field correction such a division ends the modelled
    run with \<open>Inl NonFinite\<close>: the source goes on with values that are no real
    numbers. In the magnitude computation the non-finite values are kept as values
    of the type \<open>fl\<close>, because the source returns them;
  \<^item> where exact arithmetic would divide the results of \<^verbatim>\<open>math.sin\<close> and
    \<^verbatim>\<open>math.cos\<close> by zero, the floats do not: no double is an odd multiple of
    \<open>\<pi>/2\<close>, the divisor is a rounding residue and the source goes on (or
    \<^verbatim>\<open>math.sqrt\<close> raises \<^verbatim>\<open>ValueError\<close> on a residue below zero). The model has no
    value there and ends the run with \<open>Inl RoundingDependent\<close>.
  Elsewhere rounding, overflow to infinity and signed zeros are not part of the model:
  the model computes in exact arithmetic what the source computes in doubles, and a
  statement that an equality or a strict inequality of computed numbers decides is a
  statement of exact arithmetic.
\<close>

datatype error = IndexError | ValueError | NonFinite | RoundingDependent

definition bindE :: "'e + 'a \<Rightarrow> ('a \<Rightarrow> 'e + 'b) \<Rightarrow> 'e + 'b" where
  "bindE m f = (case m of Inl e \<Rightarrow> Inl e | Inr v \<Rightarrow> f v)"

text \<open>\<^verbatim>\<open>xs[0]\<close> and \<^verbatim>\<open>xs[-1]\<close> of an array: both raise on an empty one.\<close>

definition first_item :: "'a list \<Rightarrow> error + 'a" where
  "first_item xs = (case xs of [] \<Rightarrow> Inl IndexError | x # _ \<Rightarrow> Inr x)"

definition last_item :: "'a list \<Rightarrow> error + 'a" where
  "last_item xs = (case xs of [] \<Rightarrow> Inl IndexError | _ # _ \<Rightarrow> Inr (last xs))"

text \<open>\<^verbatim>\<open>xs[i]\<close> for an index \<open>i \<ge> 0\<close>.\<close>

definition item :: "'a list \<Rightarrow> nat \<Rightarrow> error + 'a" where
  "item xs i = (if i < length xs then Inr (xs ! i) else Inl IndexError)"

text \<open>
  The nearest double of a real number, ties going to the even significand: a double
  has 53 significant bits, so in the binade of \<open>x\<close> the doubles are the multiples
  of \<open>u = 2 powr (\<lfloor>log 2 \<bar>x\<bar>\<rfloor> - 52)\<close>. Overflow and subnormal numbers are left out.
\<close>

definition rne :: "real \<Rightarrow> int" where
  "rne y = (let f = \<lfloor>y\<rfloor>
            in if y - of_int f < 1 / 2 then f
               else if 1 / 2 < y - of_int f then f + 1
               else if even f then f else f + 1)"

definition round64 :: "real \<Rightarrow> real" where
  "round64 x =
     (if x = 0 then 0
      else let u = 2 powr (of_int \<lfloor>log 2 \<bar>x\<bar>\<rfloor> - 52) in u * of_int (rne (x / u)))"

text \<open>
  \<^verbatim>\<open>a % b\<close> on Python floats, as the interpreter computes it: the remainder
  \<^verbatim>\<open>fmod(a, b)\<close> of C, which is exact and has the sign of \<open>a\<close>, and, when it is
  not zero and its sign is not the sign of \<open>b\<close>, the float sum of the remainder and
  \<open>b\<close>. That sum is rounded: for a tiny negative remainder and \<open>b = 360\<close> it is
  360 itself.
\<close>

definition fmod :: "real \<Rightarrow> real \<Rightarrow> real" where
  "fmod a b = a - b * of_int (if 0 \<le> a / b then \<lfloor>a / b\<rfloor> else \<lceil>a / b\<rceil>)"

definition pymod :: "real \<Rightarrow> real \<Rightarrow> real" where
  "pymod a b =
     (let m = fmod a b
      in if m \<noteq> 0 \<and> ((b < 0) \<noteq> (m < 0)) then round64 (m + b) else m)"

definition degrees :: "real \<Rightarrow> real" where
  "degrees x = x * 180 / pi"

definition radians :: "real \<Rightarrow> real" where
  "radians x = x * pi / 180"

text \<open>\<^verbatim>\<open>math.atan2(y, x)\<close>, the angle of the point \<open>(x, y)\<close> in \<open>(-\<pi>, \<pi>]\<close>.\<close>

definition atan2 :: "real \<Rightarrow> real \<Rightarrow> real" where
  "atan2 y x =
     (if 0 < x then arctan (y / x)
      else if x < 0 then (if 0 \<le> y then arctan (y / x) + pi else arctan (y / x) - pi)
      else if 0 < y then pi / 2
      else if y < 0 then - (pi / 2)
      else 0)"

section \<open>applyFieldCorrection\<close>

text \<open>
  \<^verbatim>\<open>np.vstack((X_data, Y_data, level_data)).T\<close>: the rows of the data matrix. numpy
  raises \<^verbatim>\<open>ValueError\<close> when the arrays differ in length.
\<close>

definition vstack3 :: "real list \<Rightarrow> real list \<Rightarrow> real list \<Rightarrow> error + (real \<times> real \<times> real) list" where
  "vstack3 a b c =
     (if length a = length b \<and> length b = length c then Inr (zip a (zip b c))
      else Inl ValueError)"

definition vstack2 :: "real list \<Rightarrow> real list \<Rightarrow> error + (real \<times> real) list" where
  "vstack2 a b = (if length a = length b then Inr (zip a b) else Inl ValueError)"

text \<open>
  The two polynomials of lines 80 to 108. The expression reads the coefficients 0 to 11,
  so it raises \<^verbatim>\<open>IndexError\<close> exactly when there are fewer than 12; further
  coefficients are never read. In \<open>Y_pix\<close> the two radial terms multiply \<open>Ydet\<close>
  first and \<open>Xdet\<close> second, the other way round from \<open>X_pix\<close>.
\<close>

definition X_pix_of :: "real list \<Rightarrow> real \<Rightarrow> real \<Rightarrow> error + real" where
  "X_pix_of x_poly Xdet Ydet =
     (if length x_poly < 12 then Inl IndexError
      else Inr (Xdet
        + x_poly ! 0
        + x_poly ! 1 * Xdet
        + x_poly ! 2 * Ydet
        + x_poly ! 3 * Xdet ^ 2
        + x_poly ! 4 * Xdet * Ydet
        + x_poly ! 5 * Ydet ^ 2
        + x_poly ! 6 * Xdet ^ 3
        + x_poly ! 7 * Xdet ^ 2 * Ydet
        + x_poly ! 8 * Xdet * Ydet ^ 2
        + x_poly ! 9 * Ydet ^ 3
        + x_poly ! 10 * Xdet * sqrt (Xdet ^ 2 + Ydet ^ 2)
        + x_poly ! 11 * Ydet * sqrt (Xdet ^ 2 + Ydet ^ 2)))"

definition Y_pix_of :: "real list \<Rightarrow> real \<Rightarrow> real \<Rightarrow> error + real" where
  "Y_pix_of y_poly Xdet Ydet =
     (if length y_poly < 12 then Inl IndexError
      else Inr (Ydet
        + y_poly ! 0
        + y_poly ! 1 * Xdet
        + y_poly ! 2 * Ydet
        + y_poly ! 3 * Xdet ^ 2
        + y_poly ! 4 * Xdet * Ydet
        + y_poly ! 5 * Ydet ^ 2
        + y_poly ! 6 * Xdet ^ 3
        + y_poly ! 7 * Xdet ^ 2 * Ydet
        + y_poly ! 8 * Xdet * Ydet ^ 2
        + y_poly ! 9 * Ydet ^ 3
        + y_poly ! 10 * Ydet * sqrt (Xdet ^ 2 + Ydet ^ 2)
        + y_poly ! 11 * Xdet * sqrt (Xdet ^ 2 + Ydet ^ 2)))"

text \<open>
  The resolutions are Python 2 integers: \<^verbatim>\<open>X_res/2\<close> is the floor division and
  \<^verbatim>\<open>X_res/384.0\<close> the float division.
\<close>

definition X_scale_of :: "int \<Rightarrow> real" where
  "X_scale_of X_res = real_of_int X_res / 384"

definition Y_scale_of :: "int \<Rightarrow> real" where
  "Y_scale_of Y_res = real_of_int Y_res / 288"

text \<open>Lines 73 and 74: a detection point in the CIF frame.\<close>

definition cif_X :: "int \<Rightarrow> real \<Rightarrow> real" where
  "cif_X X_res Xdet = (Xdet - real_of_int (X_res div 2)) / X_scale_of X_res"

definition cif_Y :: "int \<Rightarrow> real \<Rightarrow> real" where
  "cif_Y Y_res Ydet = (Ydet - real_of_int (Y_res div 2)) / Y_scale_of Y_res"

text \<open>
  Lines 77 and 78: the radius of the vignetting test, taken from the point
  \<open>(192, 192)\<close> of the CIF coordinates, and the corrected level.
\<close>

definition vignetting_radius :: "real \<Rightarrow> real \<Rightarrow> real" where
  "vignetting_radius Xdet Ydet = sqrt ((Xdet - 192) ^ 2 + (Ydet - 192) ^ 2)"

definition vignetting :: "real \<Rightarrow> real \<Rightarrow> real \<Rightarrow> real" where
  "vignetting Xdet Ydet level =
     (if vignetting_radius Xdet Ydet > 120
      then level * (1 + 0.00245 * (vignetting_radius Xdet Ydet - 120))
      else level)"

text \<open>The body of the loop of lines 70 to 120, for one row of the data matrix.\<close>

definition correct_point ::
  "real list \<Rightarrow> real list \<Rightarrow> int \<Rightarrow> int \<Rightarrow> real \<Rightarrow> real \<times> real \<times> real \<Rightarrow> error + real \<times> real \<times> real" where
  "correct_point x_poly y_poly X_res Y_res F_scale row =
     (case row of (Xdet0, Ydet0, level0) \<Rightarrow>
        if X_scale_of X_res = 0 \<or> Y_scale_of Y_res = 0 then Inl NonFinite
        else
          let Xdet = cif_X X_res Xdet0;
              Ydet = cif_Y Y_res Ydet0;
              level = vignetting Xdet Ydet level0
          in bindE (X_pix_of x_poly Xdet Ydet) (\<lambda>X_pix.
             bindE (Y_pix_of y_poly Xdet Ydet) (\<lambda>Y_pix.
               if F_scale = 0 then Inl NonFinite
               else Inr (X_pix / F_scale, Y_pix / F_scale, level))))"

text \<open>
  The loop writes the three results of the \<open>i\<close>-th row at index \<open>i\<close> of arrays
  that \<^verbatim>\<open>np.zeros_like\<close> made as long as the input; the lists of the model hold the
  values in the order they are written. An exception ends the loop.
\<close>

fun correct_loop ::
  "real list \<Rightarrow> real list \<Rightarrow> int \<Rightarrow> int \<Rightarrow> real \<Rightarrow> (real \<times> real \<times> real) list
     \<Rightarrow> error + real list \<times> real list \<times> real list" where
  "correct_loop x_poly y_poly X_res Y_res F_scale [] = Inr ([], [], [])"
| "correct_loop x_poly y_poly X_res Y_res F_scale (row # rows) =
     bindE (correct_point x_poly y_poly X_res Y_res F_scale row) (\<lambda>(X_pix, Y_pix, level).
     bindE (correct_loop x_poly y_poly X_res Y_res F_scale rows) (\<lambda>(Xs, Ys, Ls).
       Inr (X_pix # Xs, Y_pix # Ys, level # Ls)))"

definition applyFieldCorrection ::
  "real list \<Rightarrow> real list \<Rightarrow> int \<Rightarrow> int \<Rightarrow> real \<Rightarrow> real list \<Rightarrow> real list \<Rightarrow> real list
     \<Rightarrow> error + real list \<times> real list \<times> real list" where
  "applyFieldCorrection x_poly y_poly X_res Y_res F_scale X_data Y_data level_data =
     bindE (vstack3 X_data Y_data level_data)
       (correct_loop x_poly y_poly X_res Y_res F_scale)"

section \<open>XY2altAz\<close>

text \<open>
  Lines 181 to 185: the azimuth and the altitude of the direction \<open>(x, y, z)\<close>.
\<close>

definition horizontal_angles :: "real \<Rightarrow> real \<Rightarrow> real \<Rightarrow> real \<times> real" where
  "horizontal_angles x y z =
     (let r = sqrt (x ^ 2 + y ^ 2);
          azimuth = pymod (degrees (atan2 y x)) 360;
          altitude = degrees (atan2 z r)
      in (azimuth, altitude))"

text \<open>
  The body of the loop of lines 158 to 191. The functions of \<^verbatim>\<open>math\<close> work on
  Python floats: \<^verbatim>\<open>math.sqrt\<close> raises \<^verbatim>\<open>ValueError\<close> on a negative number. In
  exact arithmetic \<open>sin_t\<close> is the sine of a declination and \<open>1 - sin_t\<^sup>2\<close> is
  never negative, so the model never takes that branch; the floats take it when
  rounding puts \<open>sin_t\<^sup>2\<close> above 1, which happens at and near the values where
  \<open>sin_t\<close> is 1 or -1. The divisors of lines 167 and 168 are zero in exact arithmetic
  when \<open>sin_t\<close> is 1 or -1 or the declination of the centre is 90 or -90 degrees; the
  floats divide by a rounding residue there and the source goes on, and the model ends
  with \<open>Inl RoundingDependent\<close>. In line 169 the operator \<^verbatim>\<open>%\<close> binds tighter than
  the subtraction.
\<close>

definition project_point ::
  "real \<Rightarrow> real \<Rightarrow> real \<Rightarrow> real \<Rightarrow> real \<Rightarrow> real \<Rightarrow> real \<times> real \<Rightarrow> error + real \<times> real" where
  "project_point lat lon RA_d dec_d Ho rot_param row =
     (case row of (X_pix, Y_pix) \<Rightarrow>
        let dec_rad = radians dec_d;
            sl = sin (radians lon);
            cl = cos (radians lon);
            radius = radians (sqrt (X_pix ^ 2 + Y_pix ^ 2));
            theta = radians (pymod (90 - rot_param + degrees (atan2 Y_pix X_pix)) 360);
            sin_t = sin dec_rad * cos radius + cos dec_rad * sin radius * cos theta
        in if 1 - sin_t ^ 2 < 0 then Inl ValueError
        else
          let Dec0det = atan2 sin_t (sqrt (1 - sin_t ^ 2))
          in if cos Dec0det = 0 then Inl RoundingDependent
          else if cos Dec0det * cos dec_rad = 0 then Inl RoundingDependent
          else
            let sin_t2 = sin theta * sin radius / cos Dec0det;
                cos_t = (cos radius - sin Dec0det * sin dec_rad) / (cos Dec0det * cos dec_rad);
                RA0det = RA_d - pymod (degrees (atan2 sin_t2 cos_t)) 360;
                h = radians (Ho + lat - RA0det);
                sh = sin h;
                sd = sin Dec0det;
                ch = cos h;
                cd = cos Dec0det;
                x = - ch * cd * sl + sd * cl;
                y = - sh * cd;
                z = ch * cd * cl + sd * sl
            in Inr (horizontal_angles x y z))"

fun project_loop ::
  "real \<Rightarrow> real \<Rightarrow> real \<Rightarrow> real \<Rightarrow> real \<Rightarrow> real \<Rightarrow> (real \<times> real) list
     \<Rightarrow> error + real list \<times> real list" where
  "project_loop lat lon RA_d dec_d Ho rot_param [] = Inr ([], [])"
| "project_loop lat lon RA_d dec_d Ho rot_param (row # rows) =
     bindE (project_point lat lon RA_d dec_d Ho rot_param row) (\<lambda>(azimuth, altitude).
     bindE (project_loop lat lon RA_d dec_d Ho rot_param rows) (\<lambda>(azs, alts).
       Inr (azimuth # azs, altitude # alts)))"

definition XY2altAz ::
  "real \<Rightarrow> real \<Rightarrow> real \<Rightarrow> real \<Rightarrow> real \<Rightarrow> real \<Rightarrow> real list \<Rightarrow> real list
     \<Rightarrow> error + real list \<times> real list" where
  "XY2altAz lat lon RA_d dec_d Ho rot_param X_data Y_data =
     bindE (vstack2 X_data Y_data) (project_loop lat lon RA_d dec_d Ho rot_param)"

section \<open>altAz2RADec\<close>

text \<open>
  A row of \<^verbatim>\<open>time_data\<close>: year, month, day, hour, minute, second, millisecond.
  \<^verbatim>\<open>date2JD\<close> is imported from the module \<^verbatim>\<open>MeteorTriangulation\<close>, which is not
  part of the sources at hand: it is a parameter of the model, a function of the time
  tuple and of the keyword argument \<^verbatim>\<open>UT_corr\<close>.
\<close>

type_synonym time_tuple = "real \<times> real \<times> real \<times> real \<times> real \<times> real \<times> real"

text \<open>
  The body of the loop of lines 228 to 259, for the row of \<^verbatim>\<open>time_data\<close> and the row
  of the data matrix. \<^verbatim>\<open>math.asin\<close> raises \<^verbatim>\<open>ValueError\<close> outside \<open>[-1, 1]\<close>.
\<close>

definition convert_point ::
  "(time_tuple \<Rightarrow> real \<Rightarrow> real) \<Rightarrow> real \<Rightarrow> real \<Rightarrow> real \<Rightarrow> time_tuple \<Rightarrow> real \<times> real
     \<Rightarrow> error + real \<times> real \<times> real" where
  "convert_point date2JD lat lon UT_corr t row =
     (case row of (azimuth, altitude) \<Rightarrow>
        let sl = sin (radians lon);
            cl = cos (radians lon);
            az_rad = radians azimuth;
            alt_rad = radians altitude;
            saz = sin az_rad;
            salt = sin alt_rad;
            caz = cos az_rad;
            calt = cos alt_rad;
            x = - saz * calt;
            y = - caz * sl * calt + salt * cl;
            HA = degrees (atan2 x y);
            JD = date2JD t UT_corr;
            T = (JD - 2451545.0) / 36525.0;
            Ho = pymod (280.46061837 + 360.98564736629 * (JD - 2451545.0)
                        + 0.000387933 * T ^ 2 - T ^ 3 / 38710000.0) 360;
            RA = pymod (Ho + lat - HA) 360;
            v = sl * salt + cl * calt * caz
        in if v < - 1 \<or> 1 < v then Inl ValueError
           else Inr (JD, RA, degrees (arcsin v)))"

text \<open>
  The loop reads \<^verbatim>\<open>time_data[i]\<close> for the \<open>i\<close>-th row of the data matrix: a
  \<^verbatim>\<open>time_data\<close> with fewer rows raises \<^verbatim>\<open>IndexError\<close>, further rows are not read.
\<close>

fun convert_loop ::
  "(time_tuple \<Rightarrow> real \<Rightarrow> real) \<Rightarrow> real \<Rightarrow> real \<Rightarrow> real \<Rightarrow> time_tuple list \<Rightarrow> (real \<times> real) list
     \<Rightarrow> error + real list \<times> real list \<times> real list" where
  "convert_loop date2JD lat lon UT_corr time_data [] = Inr ([], [], [])"
| "convert_loop date2JD lat lon UT_corr [] (row # rows) = Inl IndexError"
| "convert_loop date2JD lat lon UT_corr (t # time_data) (row # rows) =
     bindE (convert_point date2JD lat lon UT_corr t row) (\<lambda>(JD, RA, dec).
     bindE (convert_loop date2JD lat lon UT_corr time_data rows) (\<lambda>(JDs, RAs, decs).
       Inr (JD # JDs, RA # RAs, dec # decs)))"

definition altAz2RADec ::
  "(time_tuple \<Rightarrow> real \<Rightarrow> real) \<Rightarrow> real \<Rightarrow> real \<Rightarrow> real \<Rightarrow> time_tuple list \<Rightarrow> real list \<Rightarrow> real list
     \<Rightarrow> error + real list \<times> real list \<times> real list" where
  "altAz2RADec date2JD lat lon UT_corr time_data azimuth_data altitude_data =
     bindE (vstack2 azimuth_data altitude_data)
       (convert_loop date2JD lat lon UT_corr time_data)"

section \<open>calculateMagnitudes\<close>

text \<open>
  The magnitudes are numpy scalars, and numpy returns an infinity or a NaN where real
  arithmetic has no value (a division by zero, a logarithm of a number that is not
  positive). The type \<open>fl\<close> has these values beside the finite ones; the operations
  follow IEEE 754 on them.
\<close>

datatype fl = Fin real | PInf | NInf | NaN

fun np_div :: "fl \<Rightarrow> fl \<Rightarrow> fl" where
  "np_div (Fin a) (Fin b) =
     (if b \<noteq> 0 then Fin (a / b) else if 0 < a then PInf else if a < 0 then NInf else NaN)"
| "np_div (Fin a) PInf = Fin 0"
| "np_div (Fin a) NInf = Fin 0"
| "np_div PInf (Fin b) = (if 0 \<le> b then PInf else NInf)"
| "np_div NInf (Fin b) = (if 0 \<le> b then NInf else PInf)"
| "np_div _ _ = NaN"

fun np_log10 :: "fl \<Rightarrow> fl" where
  "np_log10 (Fin a) = (if 0 < a then Fin (log 10 a) else if a = 0 then NInf else NaN)"
| "np_log10 PInf = PInf"
| "np_log10 _ = NaN"

fun fl_mul :: "fl \<Rightarrow> fl \<Rightarrow> fl" where
  "fl_mul (Fin a) (Fin b) = Fin (a * b)"
| "fl_mul (Fin a) PInf = (if 0 < a then PInf else if a < 0 then NInf else NaN)"
| "fl_mul (Fin a) NInf = (if 0 < a then NInf else if a < 0 then PInf else NaN)"
| "fl_mul PInf (Fin b) = (if 0 < b then PInf else if b < 0 then NInf else NaN)"
| "fl_mul NInf (Fin b) = (if 0 < b then NInf else if b < 0 then PInf else NaN)"
| "fl_mul PInf PInf = PInf"
| "fl_mul PInf NInf = NInf"
| "fl_mul NInf PInf = NInf"
| "fl_mul NInf NInf = PInf"
| "fl_mul _ _ = NaN"

fun fl_add :: "fl \<Rightarrow> fl \<Rightarrow> fl" where
  "fl_add (Fin a) (Fin b) = Fin (a + b)"
| "fl_add (Fin a) PInf = PInf"
| "fl_add (Fin a) NInf = NInf"
| "fl_add PInf (Fin b) = PInf"
| "fl_add NInf (Fin b) = NInf"
| "fl_add PInf PInf = PInf"
| "fl_add NInf NInf = NInf"
| "fl_add _ _ = NaN"

fun fl_neg :: "fl \<Rightarrow> fl" where
  "fl_neg (Fin a) = Fin (- a)"
| "fl_neg PInf = NInf"
| "fl_neg NInf = PInf"
| "fl_neg NaN = NaN"

definition fl_sub :: "fl \<Rightarrow> fl \<Rightarrow> fl" where
  "fl_sub a b = fl_add a (fl_neg b)"

text \<open>The comparisons: false as soon as one side is a NaN.\<close>

fun fl_le :: "fl \<Rightarrow> fl \<Rightarrow> bool" where
  "fl_le NaN _ = False"
| "fl_le _ NaN = False"
| "fl_le (Fin a) (Fin b) = (a \<le> b)"
| "fl_le NInf _ = True"
| "fl_le _ PInf = True"
| "fl_le _ _ = False"

fun fl_gt :: "fl \<Rightarrow> fl \<Rightarrow> bool" where
  "fl_gt NaN _ = False"
| "fl_gt _ NaN = False"
| "fl_gt (Fin a) (Fin b) = (b < a)"
| "fl_gt PInf PInf = False"
| "fl_gt PInf _ = True"
| "fl_gt NInf _ = False"
| "fl_gt (Fin a) NInf = True"
| "fl_gt (Fin a) PInf = False"

text \<open>\<^verbatim>\<open>np.arccos\<close> is a NaN outside \<open>[-1, 1]\<close>; \<^verbatim>\<open>np.degrees\<close> scales.\<close>

definition np_arccos :: "real \<Rightarrow> fl" where
  "np_arccos c = (if - 1 \<le> c \<and> c \<le> 1 then Fin (arccos c) else NaN)"

fun np_degrees :: "fl \<Rightarrow> fl" where
  "np_degrees (Fin a) = Fin (degrees a)"
| "np_degrees v = v"

text \<open>The body of the loop of lines 295 to 309, for one level.\<close>

definition magnitude_of :: "fl \<Rightarrow> real \<Rightarrow> real \<Rightarrow> real \<Rightarrow> real \<Rightarrow> fl" where
  "magnitude_of angular_v mag_0 mag_lev w_pix level =
     (let magnitude =
            (if fl_le (np_log10 (Fin level)) (Fin 3.2)
             then fl_add (fl_mul (Fin mag_0) (np_log10 (Fin level))) (Fin mag_lev)
             else fl_add (fl_mul (Fin (- 20)) (np_log10 (Fin level))) (Fin 64.5))
      in if fl_gt angular_v (Fin w_pix)
         then fl_sub magnitude (fl_mul (Fin 2.5) (np_log10 (np_div angular_v (Fin w_pix))))
         else magnitude)"

fun magnitude_loop :: "fl \<Rightarrow> real \<Rightarrow> real \<Rightarrow> real \<Rightarrow> real list \<Rightarrow> fl list" where
  "magnitude_loop angular_v mag_0 mag_lev w_pix [] = []"
| "magnitude_loop angular_v mag_0 mag_lev w_pix (level # levels) =
     magnitude_of angular_v mag_0 mag_lev w_pix level
       # magnitude_loop angular_v mag_0 mag_lev w_pix levels"

text \<open>
  Lines 288 and 289, on the angles in radians, and line 292. The argument of the
  arc cosine is taken exactly. Rounding moves it by an ulp, which decides the length
  where the exact argument is 1, at equal begin and end: the floats then give a length
  of 0, a length of about \<open>8.5e-7\<close> degrees or a NaN.
\<close>

definition trail_length :: "real \<Rightarrow> real \<Rightarrow> real \<Rightarrow> real \<Rightarrow> fl" where
  "trail_length ra_beg ra_end dec_beg dec_end =
     np_degrees (np_arccos (sin dec_beg * sin dec_end
        + cos dec_beg * cos dec_end * cos (ra_beg - ra_end)))"

definition angular_velocity :: "real \<Rightarrow> real \<Rightarrow> real \<Rightarrow> real \<Rightarrow> real \<Rightarrow> fl" where
  "angular_velocity ra_beg ra_end dec_beg dec_end duration =
     np_div (trail_length (radians ra_beg) (radians ra_end) (radians dec_beg) (radians dec_end))
       (Fin duration)"

definition calculateMagnitudes ::
  "real list \<Rightarrow> real \<Rightarrow> real \<Rightarrow> real \<Rightarrow> real \<Rightarrow> real \<Rightarrow> real \<Rightarrow> real \<Rightarrow> real \<Rightarrow> fl list" where
  "calculateMagnitudes level_data ra_beg ra_end dec_beg dec_end duration mag_0 mag_lev w_pix =
     (let angular_v = angular_velocity ra_beg ra_end dec_beg dec_end duration
      in magnitude_loop angular_v mag_0 mag_lev w_pix level_data)"

section \<open>XY2CorrectedRADec\<close>

definition XY2CorrectedRADec ::
  "(time_tuple \<Rightarrow> real \<Rightarrow> real) \<Rightarrow> time_tuple list \<Rightarrow> real list \<Rightarrow> real list \<Rightarrow> real list
     \<Rightarrow> real \<Rightarrow> real \<Rightarrow> real \<Rightarrow> real \<Rightarrow> int \<Rightarrow> int \<Rightarrow> real \<Rightarrow> real \<Rightarrow> real \<Rightarrow> real \<Rightarrow> real \<Rightarrow> real \<Rightarrow> real
     \<Rightarrow> real list \<Rightarrow> real list
     \<Rightarrow> error + real list \<times> real list \<times> real list \<times> fl list" where
  "XY2CorrectedRADec date2JD time_data X_data Y_data level_data UT_corr lat lon Ho X_res Y_res
       RA_d dec_d rot_param F_scale w_pix mag_0 mag_lev x_poly y_poly =
     bindE (applyFieldCorrection x_poly y_poly X_res Y_res F_scale X_data Y_data level_data)
       (\<lambda>(X_corrected, Y_corrected, levels_corrected).
     bindE (XY2altAz lat lon RA_d dec_d Ho rot_param X_corrected Y_corrected)
       (\<lambda>(az_data, alt_data).
     bindE (altAz2RADec date2JD lat lon UT_corr time_data az_data alt_data)
       (\<lambda>(JD_data, RA_data, dec_data).
     bindE (first_item RA_data) (\<lambda>ra_beg.
     bindE (last_item RA_data) (\<lambda>ra_end.
     bindE (first_item dec_data) (\<lambda>dec_beg.
     bindE (last_item dec_data) (\<lambda>dec_end.
     bindE (last_item JD_data) (\<lambda>JD_last.
     bindE (first_item JD_data) (\<lambda>JD_first.
       let duration = (JD_last - JD_first) * 86400
       in Inr (JD_data, RA_data, dec_data,
            calculateMagnitudes levels_corrected ra_beg ra_end dec_beg dec_end duration
              mag_0 mag_lev w_pix))))))))))"

section \<open>findPointTimePairs\<close>

text \<open>
  A point of a station is a sequence whose first entry is its time, a Julian date; the
  main program unpacks the four entries time, right ascension, declination and one more.
\<close>

type_synonym point = "real \<times> real \<times> real \<times> real"

definition point_time :: "point \<Rightarrow> real" where
  "point_time p = fst p"

text \<open>
  The inner loop of lines 392 to 399 over \<^verbatim>\<open>enumerate(station_obj2.points)\<close>: \<open>k\<close>
  is the index of the next point, the pair is \<open>(min_index, min_diff)\<close>.
\<close>

fun scan_points :: "real \<Rightarrow> point list \<Rightarrow> nat \<Rightarrow> nat \<times> real \<Rightarrow> nat \<times> real" where
  "scan_points t1 [] k (min_index, min_diff) = (min_index, min_diff)"
| "scan_points t1 (point2 # rest) k (min_index, min_diff) =
     (let diff = \<bar>t1 - point_time point2\<bar>
      in if diff < min_diff then scan_points t1 rest (Suc k) (k, diff)
         else scan_points t1 rest (Suc k) (min_index, min_diff))"

text \<open>
  Lines 390 to 399 for one point of the first station: the search starts from the
  difference to the point at \<open>min_index\<close>, which raises \<^verbatim>\<open>IndexError\<close> when there is
  no such point.
\<close>

definition closest_point :: "real \<Rightarrow> point list \<Rightarrow> nat \<Rightarrow> error + nat \<times> real" where
  "closest_point t1 points2 min_index =
     bindE (item points2 min_index) (\<lambda>p.
       Inr (scan_points t1 points2 0 (min_index, \<bar>t1 - point_time p\<bar>)))"

text \<open>
  The outer loop: \<open>min_index\<close> is set to 0 once, before the loop, and a point of the
  first station starts from the index the point before it has found. The \<^verbatim>\<open>print\<close>
  statement of line 406 is left out.
\<close>

fun pair_loop :: "point list \<Rightarrow> point list \<Rightarrow> real \<Rightarrow> nat \<Rightarrow> error + (point \<times> point) list" where
  "pair_loop [] points2 max_dt min_index = Inr []"
| "pair_loop (point1 # rest) points2 max_dt min_index =
     bindE (closest_point (point_time point1) points2 min_index) (\<lambda>(min_index', min_diff).
       if min_diff < max_dt
       then bindE (item points2 min_index') (\<lambda>p2.
            bindE (pair_loop rest points2 max_dt min_index') (\<lambda>point_pairs.
              Inr ((point1, p2) # point_pairs)))
       else pair_loop rest points2 max_dt min_index')"

definition findPointTimePairs :: "point list \<Rightarrow> point list \<Rightarrow> real \<Rightarrow> error + (point \<times> point) list" where
  "findPointTimePairs points1 points2 max_dt =
     pair_loop points1 points2 (max_dt / 60 / 60 / 24) 0"

section \<open>Notions of the specification\<close>

text \<open>
  The minimum absolute time difference of a time to the points of a station, as the
  description of the pairing has it.
\<close>

definition min_time_difference :: "point list \<Rightarrow> real \<Rightarrow> real" where
  "min_time_difference B t1 = Min ((\<lambda>q. \<bar>t1 - point_time q\<bar>) ` set B)"

text \<open>
  The choice of the pairing among the points of the second station \<open>B\<close>, for a time
  \<open>t\<close> and a starting index \<open>hint\<close>: the index \<open>k\<close> attains the least absolute
  time difference; it is \<open>hint\<close> when the point at \<open>hint\<close> attains that difference,
  and the smallest index that attains it otherwise.
\<close>

definition selected_from :: "point list \<Rightarrow> nat \<Rightarrow> real \<Rightarrow> nat \<Rightarrow> bool" where
  "selected_from B hint t k \<longleftrightarrow>
     k < length B \<and>
     (\<forall>j < length B. \<bar>t - point_time (B ! k)\<bar> \<le> \<bar>t - point_time (B ! j)\<bar>) \<and>
     (if \<bar>t - point_time (B ! hint)\<bar> = \<bar>t - point_time (B ! k)\<bar> then k = hint
      else \<forall>j < k. \<bar>t - point_time (B ! k)\<bar> < \<bar>t - point_time (B ! j)\<bar>)"

text \<open>
  The length of a track by the spherical law of cosines, in degrees, between the points
  \<open>(ra1, dec1)\<close> and \<open>(ra2, dec2)\<close> given in degrees.
\<close>

definition great_circle_distance :: "real \<Rightarrow> real \<Rightarrow> real \<Rightarrow> real \<Rightarrow> real" where
  "great_circle_distance ra1 dec1 ra2 dec2 =
     degrees (arccos (sin (radians dec1) * sin (radians dec2)
        + cos (radians dec1) * cos (radians dec2) * cos (radians ra1 - radians ra2)))"

text \<open>
  The data model of the description: a track is a list of detection points, and each
  stage maps a list of records to a list of records, one for one. The stages apply the
  loop bodies of the source to the fields of the records; \<open>run_pipeline\<close> is the
  composition the description gives for the orchestrator, the magnitude estimator being
  \<open>calculateMagnitudes\<close> itself.
\<close>

record DetectionPoint =
  dp_time :: time_tuple
  dp_x :: real
  dp_y :: real
  dp_level :: real

record CorrectedPoint =
  cp_x_corr :: real
  cp_y_corr :: real
  cp_level_corr :: real

record SkyPoint =
  sp_azimuth :: real
  sp_altitude :: real

record EquatorialPoint =
  ep_julian_date :: real
  ep_ra :: real
  ep_dec :: real

record CalibrationModel =
  cm_x_poly :: "real list"
  cm_y_poly :: "real list"
  cm_X_res :: int
  cm_Y_res :: int
  cm_F_scale :: real
  cm_RA_center :: real
  cm_Dec_center :: real
  cm_rot_param :: real
  cm_lat :: real
  cm_lon :: real
  cm_UT_correction :: real
  cm_reference_hour_angle :: real
  cm_mag_slope :: real
  cm_mag_intercept :: real
  cm_w_pix :: real

fun mapE :: "('a \<Rightarrow> error + 'b) \<Rightarrow> 'a list \<Rightarrow> error + 'b list" where
  "mapE f [] = Inr []"
| "mapE f (x # xs) = bindE (f x) (\<lambda>y. bindE (mapE f xs) (\<lambda>ys. Inr (y # ys)))"

definition correct :: "CalibrationModel \<Rightarrow> DetectionPoint list \<Rightarrow> error + CorrectedPoint list" where
  "correct cal track =
     mapE (\<lambda>p.
       bindE (correct_point (cm_x_poly cal) (cm_y_poly cal) (cm_X_res cal) (cm_Y_res cal)
                (cm_F_scale cal) (dp_x p, dp_y p, dp_level p))
         (\<lambda>(x, y, l). Inr \<lparr>cp_x_corr = x, cp_y_corr = y, cp_level_corr = l\<rparr>)) track"

definition project :: "CalibrationModel \<Rightarrow> CorrectedPoint list \<Rightarrow> error + SkyPoint list" where
  "project cal cps =
     mapE (\<lambda>c.
       bindE (project_point (cm_lat cal) (cm_lon cal) (cm_RA_center cal) (cm_Dec_center cal)
                (cm_reference_hour_angle cal) (cm_rot_param cal) (cp_x_corr c, cp_y_corr c))
         (\<lambda>(az, alt). Inr \<lparr>sp_azimuth = az, sp_altitude = alt\<rparr>)) cps"

definition toEquatorial ::
  "(time_tuple \<Rightarrow> real \<Rightarrow> real) \<Rightarrow> CalibrationModel \<Rightarrow> SkyPoint list \<Rightarrow> time_tuple list
     \<Rightarrow> error + EquatorialPoint list" where
  "toEquatorial date2JD cal sps time_data =
     mapE (\<lambda>(s, t).
       bindE (convert_point date2JD (cm_lat cal) (cm_lon cal) (cm_UT_correction cal) t
                (sp_azimuth s, sp_altitude s))
         (\<lambda>(JD, RA, dec). Inr \<lparr>ep_julian_date = JD, ep_ra = RA, ep_dec = dec\<rparr>)) (zip sps time_data)"

definition run_pipeline ::
  "(time_tuple \<Rightarrow> real \<Rightarrow> real) \<Rightarrow> CalibrationModel \<Rightarrow> DetectionPoint list
     \<Rightarrow> error + real list \<times> real list \<times> real list \<times> fl list" where
  "run_pipeline date2JD cal track =
     bindE (correct cal track) (\<lambda>cps.
     bindE (project cal cps) (\<lambda>sps.
     bindE (toEquatorial date2JD cal sps (map dp_time track)) (\<lambda>eps.
       let first = hd eps;
           final = last eps;
           duration = (ep_julian_date final - ep_julian_date first) * 86400
       in Inr (map ep_julian_date eps, map ep_ra eps, map ep_dec eps,
            calculateMagnitudes (map cp_level_corr cps) (ep_ra first) (ep_ra final)
              (ep_dec first) (ep_dec final) duration
              (cm_mag_slope cal) (cm_mag_intercept cal) (cm_w_pix cal)))))"

section \<open>Auxiliary facts\<close>

lemma bindE_Inr [simp]: "bindE (Inr v) f = f v"
  by (simp add: bindE_def)

lemma bindE_Inl [simp]: "bindE (Inl e) f = Inl e"
  by (simp add: bindE_def)

subsection \<open>The search for the closest point\<close>

lemma scan_points_props:
  "scan_points t1 rest k (mi, md) = (mi', md') \<Longrightarrow>
     (\<forall>p \<in> set rest. md' \<le> \<bar>t1 - point_time p\<bar>) \<and> md' \<le> md \<and>
     ((md' = md \<and> mi' = mi) \<or>
      (md' < md \<and> k \<le> mi' \<and> mi' < k + length rest \<and>
       \<bar>t1 - point_time (rest ! (mi' - k))\<bar> = md' \<and>
       (\<forall>j < mi' - k. md' < \<bar>t1 - point_time (rest ! j)\<bar>)))"
proof (induction rest arbitrary: k mi md)
  case Nil
  then show ?case by simp
next
  case (Cons p ps)
  define D where "D q = \<bar>t1 - point_time q\<bar>" for q
  show ?case
  proof (cases "D p < md")
    case True
    with Cons.prems have r: "scan_points t1 ps (Suc k) (k, D p) = (mi', md')"
      by (simp add: D_def)
    from Cons.IH [OF r [unfolded D_def]]
    have A: "\<forall>q \<in> set ps. md' \<le> D q" and B: "md' \<le> D p"
      and C: "(md' = D p \<and> mi' = k) \<or>
        (md' < D p \<and> Suc k \<le> mi' \<and> mi' < Suc k + length ps \<and>
         D (ps ! (mi' - Suc k)) = md' \<and> (\<forall>j < mi' - Suc k. md' < D (ps ! j)))"
      unfolding D_def by blast+
    from C have "md' < md \<and> k \<le> mi' \<and> mi' < k + length (p # ps) \<and>
       D ((p # ps) ! (mi' - k)) = md' \<and> (\<forall>j < mi' - k. md' < D ((p # ps) ! j))"
    proof
      assume "md' = D p \<and> mi' = k"
      with True show ?thesis by simp
    next
      assume c: "md' < D p \<and> Suc k \<le> mi' \<and> mi' < Suc k + length ps \<and>
         D (ps ! (mi' - Suc k)) = md' \<and> (\<forall>j < mi' - Suc k. md' < D (ps ! j))"
      then have e: "mi' - k = Suc (mi' - Suc k)" by arith
      from c have c1: "md' < D p" and c4: "\<forall>j < mi' - Suc k. md' < D (ps ! j)" by blast+
      have "\<forall>j < mi' - k. md' < D ((p # ps) ! j)"
      proof (intro allI impI)
        fix j assume "j < mi' - k"
        with e c1 c4 show "md' < D ((p # ps) ! j)" by (cases j) simp_all
      qed
      with c True e show ?thesis by simp
    qed
    with A B True show ?thesis unfolding D_def by simp
  next
    case False
    with Cons.prems have r: "scan_points t1 ps (Suc k) (mi, md) = (mi', md')"
      by (simp add: D_def)
    from Cons.IH [OF r]
    have A: "\<forall>q \<in> set ps. md' \<le> D q" and B: "md' \<le> md"
      and C: "(md' = md \<and> mi' = mi) \<or>
        (md' < md \<and> Suc k \<le> mi' \<and> mi' < Suc k + length ps \<and>
         D (ps ! (mi' - Suc k)) = md' \<and> (\<forall>j < mi' - Suc k. md' < D (ps ! j)))"
      unfolding D_def by blast+
    from C have "(md' = md \<and> mi' = mi) \<or> (md' < md \<and> k \<le> mi' \<and> mi' < k + length (p # ps) \<and>
       D ((p # ps) ! (mi' - k)) = md' \<and> (\<forall>j < mi' - k. md' < D ((p # ps) ! j)))"
    proof
      assume "md' = md \<and> mi' = mi"
      then show ?thesis by simp
    next
      assume c: "md' < md \<and> Suc k \<le> mi' \<and> mi' < Suc k + length ps \<and>
         D (ps ! (mi' - Suc k)) = md' \<and> (\<forall>j < mi' - Suc k. md' < D (ps ! j))"
      then have e: "mi' - k = Suc (mi' - Suc k)" by arith
      from c have c1: "md' < md" and c4: "\<forall>j < mi' - Suc k. md' < D (ps ! j)" by blast+
      have "\<forall>j < mi' - k. md' < D ((p # ps) ! j)"
      proof (intro allI impI)
        fix j assume "j < mi' - k"
        with e c1 c4 False show "md' < D ((p # ps) ! j)" by (cases j) simp_all
      qed
      with c e show ?thesis by simp
    qed
    with A B False show ?thesis unfolding D_def by simp
  qed
qed

lemma closest_point_props:
  assumes h: "hint < length B" and c: "closest_point t1 B hint = Inr (k, d)"
  shows "k < length B" and "d = \<bar>t1 - point_time (B ! k)\<bar>"
    and "\<forall>j < length B. d \<le> \<bar>t1 - point_time (B ! j)\<bar>"
    and "\<bar>t1 - point_time (B ! hint)\<bar> = d \<Longrightarrow> k = hint"
    and "\<bar>t1 - point_time (B ! hint)\<bar> \<noteq> d \<Longrightarrow> \<forall>j < k. d < \<bar>t1 - point_time (B ! j)\<bar>"
proof -
  from h c have s: "scan_points t1 B 0 (hint, \<bar>t1 - point_time (B ! hint)\<bar>) = (k, d)"
    by (simp add: closest_point_def item_def)
  note P = scan_points_props [OF s]
  from P h show "k < length B" by auto
  from P h show "d = \<bar>t1 - point_time (B ! k)\<bar>" by auto
  from P show "\<forall>j < length B. d \<le> \<bar>t1 - point_time (B ! j)\<bar>" by auto
  from P show "\<bar>t1 - point_time (B ! hint)\<bar> = d \<Longrightarrow> k = hint" by auto
  from P show "\<bar>t1 - point_time (B ! hint)\<bar> \<noteq> d \<Longrightarrow> \<forall>j < k. d < \<bar>t1 - point_time (B ! j)\<bar>" by auto
qed

lemma closest_point_total:
  "hint < length B \<Longrightarrow> \<exists>k d. closest_point t1 B hint = Inr (k, d)"
  by (simp add: closest_point_def item_def)


lemma closest_point_Min:
  assumes h: "hint < length B" and c: "closest_point t1 B hint = Inr (k, d)"
  shows "d = min_time_difference B t1"
proof -
  note P = closest_point_props [OF h c]
  have "Min ((\<lambda>q. \<bar>t1 - point_time q\<bar>) ` set B) = d"
  proof (rule Min_eqI)
    show "finite ((\<lambda>q. \<bar>t1 - point_time q\<bar>) ` set B)" by simp
    show "\<And>y. y \<in> (\<lambda>q. \<bar>t1 - point_time q\<bar>) ` set B \<Longrightarrow> d \<le> y"
    proof -
      fix y assume "y \<in> (\<lambda>q. \<bar>t1 - point_time q\<bar>) ` set B"
      then obtain q where "q \<in> set B" "y = \<bar>t1 - point_time q\<bar>" by blast
      then obtain i where "i < length B" "y = \<bar>t1 - point_time (B ! i)\<bar>"
        by (metis in_set_conv_nth)
      with P(3) show "d \<le> y" by simp
    qed
    show "d \<in> (\<lambda>q. \<bar>t1 - point_time q\<bar>) ` set B"
      using P(1,2) by auto
  qed
  then show ?thesis by (simp add: min_time_difference_def)
qed

lemma pair_loop_props:
  "hint < length B \<Longrightarrow>
   \<exists>ps. pair_loop A B dt hint = Inr ps \<and>
        map fst ps = filter (\<lambda>a. min_time_difference B (point_time a) < dt) A \<and>
        (\<forall>(a, b) \<in> set ps. b \<in> set B \<and>
            \<bar>point_time a - point_time b\<bar> = min_time_difference B (point_time a))"
proof (induction A arbitrary: hint)
  case Nil
  then show ?case by simp
next
  case (Cons a A)
  from closest_point_total [OF Cons.prems] obtain k d
    where c: "closest_point (point_time a) B hint = Inr (k, d)" by blast
  note P = closest_point_props [OF Cons.prems c]
  have d: "d = min_time_difference B (point_time a)" by (rule closest_point_Min [OF Cons.prems c])
  from Cons.IH [OF P(1)] obtain ps where ps: "pair_loop A B dt k = Inr ps"
    "map fst ps = filter (\<lambda>a. min_time_difference B (point_time a) < dt) A"
    "\<forall>(a, b) \<in> set ps. b \<in> set B \<and> \<bar>point_time a - point_time b\<bar> = min_time_difference B (point_time a)"
    by blast
  show ?case
  proof (cases "d < dt")
    case True
    with c ps P(1) have "pair_loop (a # A) B dt hint = Inr ((a, B ! k) # ps)"
      by (simp add: item_def)
    with ps True d P(1,2) show ?thesis by auto
  next
    case False
    with c ps have "pair_loop (a # A) B dt hint = Inr ps" by simp
    with ps False d show ?thesis by auto
  qed
qed

lemma min_time_difference_twin:
  assumes "b \<in> set B" "point_time b = t"
  shows "min_time_difference B t = 0"
proof -
  let ?S = "(\<lambda>q. \<bar>t - point_time q\<bar>) ` set B"
  have fin: "finite ?S" by simp
  from assms have "0 \<in> ?S" by force
  then have "Min ?S \<le> 0" using fin by (rule_tac Min_le) 
  moreover have "0 \<le> Min ?S"
    using fin \<open>0 \<in> ?S\<close> by (subst Min_ge_iff) auto
  ultimately show ?thesis by (simp add: min_time_difference_def)
qed

lemma findPointTimePairs_props:
  assumes "points2 \<noteq> [] \<or> points1 = []"
  shows "\<exists>ps. findPointTimePairs points1 points2 max_dt = Inr ps \<and>
        map fst ps = filter (\<lambda>a. min_time_difference points2 (point_time a) < max_dt / 86400) points1 \<and>
        (\<forall>(a, b) \<in> set ps. b \<in> set points2 \<and>
            \<bar>point_time a - point_time b\<bar> = min_time_difference points2 (point_time a))"
proof (cases "points2 = []")
  case True
  with assms show ?thesis by (simp add: findPointTimePairs_def)
next
  case False
  then have "0 < length points2" by simp
  from pair_loop_props [OF this, of points1 "max_dt / 60 / 60 / 24"]
  show ?thesis by (simp add: findPointTimePairs_def)
qed


subsection \<open>The loop of the field correction\<close>

lemma vignetting_radius_center: "vignetting_radius 0 0 > 120"
  unfolding vignetting_radius_def by (rule real_less_rsqrt) simp

lemma correct_point_level:
  "correct_point x_poly y_poly X_res Y_res F_scale (x, y, l) = Inr (a, b, c) \<Longrightarrow>
     c = vignetting (cif_X X_res x) (cif_Y Y_res y) l"
  by (auto simp: correct_point_def bindE_def Let_def split: if_splits sum.splits)



lemma correct_loop_Inr:
  "correct_loop x_poly y_poly X_res Y_res F_scale rows = Inr (Xs, Ys, Ls) \<Longrightarrow>
     length Xs = length rows \<and> length Ys = length rows \<and>
     Ls = map (\<lambda>(x, y, l). vignetting (cif_X X_res x) (cif_Y Y_res y) l) rows"
proof (induction rows arbitrary: Xs Ys Ls)
  case Nil
  then show ?case by simp
next
  case (Cons row rows)
  obtain x y l where row: "row = (x, y, l)" by (cases row)
  from Cons.prems obtain a b c Xs' Ys' Ls' where
    p: "correct_point x_poly y_poly X_res Y_res F_scale row = Inr (a, b, c)"
    and r: "correct_loop x_poly y_poly X_res Y_res F_scale rows = Inr (Xs', Ys', Ls')"
    and e: "Xs = a # Xs'" "Ys = b # Ys'" "Ls = c # Ls'"
    by (auto simp: bindE_def split: sum.splits)
  from correct_point_level [OF p [unfolded row]] Cons.IH [OF r] e row show ?case by simp
qed


lemma vignetting_strict_mono:
  assumes "0 < level" "120 < vignetting_radius X1 Y1"
    "vignetting_radius X1 Y1 < vignetting_radius X2 Y2"
  shows "vignetting X1 Y1 level < vignetting X2 Y2 level"
  using assms by (simp add: vignetting_def)

lemma cif_examples: "cif_X 720 360 = 0" "cif_Y 576 288 = 0" "cif_X 720 0 = - 192" "cif_Y 576 0 = - 144"
  by (simp_all add: cif_X_def cif_Y_def X_scale_of_def Y_scale_of_def)

lemma vignetting_radius_corner: "vignetting_radius 0 0 < vignetting_radius (- 192) (- 144)"
  by (simp add: vignetting_radius_def)

lemma applyFieldCorrection_zero_poly:
  "applyFieldCorrection (replicate 12 0) (replicate 12 0) 720 576 1 [x] [y] [l]
     = Inr ([cif_X 720 x], [cif_Y 576 y], [vignetting (cif_X 720 x) (cif_Y 576 y) l])"
  by (simp add: applyFieldCorrection_def vstack3_def correct_point_def X_scale_of_def Y_scale_of_def
      X_pix_of_def Y_pix_of_def bindE_def Let_def)

subsection \<open>Ranges of the angles\<close>













subsection \<open>The two conversions at simple points\<close>

lemma atan2_simps [simp]: "atan2 0 0 = 0" "atan2 0 1 = 0" "atan2 1 0 = pi / 2"
  by (simp_all add: atan2_def)

lemma pymod_small: "0 \<le> a \<Longrightarrow> a < b \<Longrightarrow> pymod a b = a"
proof -
  assume a: "0 \<le> a" "a < b"
  then have "0 \<le> a / b" "\<lfloor>a / b\<rfloor> = 0" by (simp_all add: floor_eq_iff)
  then have "fmod a b = a" by (simp add: fmod_def)
  with a show ?thesis by (auto simp: pymod_def Let_def)
qed


lemma project_point_origin:
  "project_point 0 0 0 0 0 90 (0, 0) = Inr (0, 90)"
  by (simp add: project_point_def horizontal_angles_def radians_def degrees_def pymod_small)

lemma convert_point_zenith:
  "convert_point (\<lambda>t u. 2451545) 0 0 0 t (0, 90) = Inr (2451545, 280.46061837, 0)"
  by (simp add: convert_point_def radians_def degrees_def pymod_small)


subsection \<open>The magnitudes\<close>

lemma cosine_rule_bounds:
  fixes a b c :: real
  shows "- 1 \<le> sin a * sin b + cos a * cos b * cos c \<and> sin a * sin b + cos a * cos b * cos c \<le> 1"
proof -
  define w where "w = (1 + cos c) / 2"
  have "0 \<le> 1 + cos c" "1 + cos c \<le> 2"
    using cos_ge_minus_one [of c] cos_le_one [of c] by linarith+
  then have w: "0 \<le> w" "w \<le> 1"
    by (simp_all add: w_def)
  have e: "sin a * sin b + cos a * cos b * cos c = w * cos (a - b) - (1 - w) * cos (a + b)"
    by (simp add: w_def cos_diff cos_add algebra_simps)
  have "w * cos (a - b) \<le> w * 1"
    by (rule mult_left_mono) (simp_all add: w)
  moreover have "w * (- 1) \<le> w * cos (a - b)"
    by (rule mult_left_mono) (simp_all add: w)
  ultimately have u1: "w * cos (a - b) \<le> w" and l1: "- w \<le> w * cos (a - b)"
    by simp_all
  have "(1 - w) * cos (a + b) \<le> (1 - w) * 1"
    by (rule mult_left_mono) (simp_all add: w)
  moreover have "(1 - w) * (- 1) \<le> (1 - w) * cos (a + b)"
    by (rule mult_left_mono) (simp_all add: w)
  ultimately have u2: "- ((1 - w) * cos (a + b)) \<le> 1 - w"
    and l2: "- (1 - w) \<le> - ((1 - w) * cos (a + b))"
    by simp_all
  from u1 l1 u2 l2 show ?thesis unfolding e by linarith
qed

lemma trail_length_Fin:
  "trail_length (radians ra_beg) (radians ra_end) (radians dec_beg) (radians dec_end)
     = Fin (great_circle_distance ra_beg dec_beg ra_end dec_end)"
  using cosine_rule_bounds [of "radians dec_beg" "radians dec_end" "radians ra_beg - radians ra_end"]
  by (simp add: trail_length_def np_arccos_def great_circle_distance_def)

lemma angular_velocity_eq:
  "angular_velocity ra_beg ra_end dec_beg dec_end duration
     = np_div (Fin (great_circle_distance ra_beg dec_beg ra_end dec_end)) (Fin duration)"
  by (simp add: angular_velocity_def trail_length_Fin)

lemma magnitude_loop_map:
  "magnitude_loop angular_v mag_0 mag_lev w_pix levels
     = map (magnitude_of angular_v mag_0 mag_lev w_pix) levels"
  by (induction levels) simp_all

lemma magnitude_of_positive:
  "0 < level \<Longrightarrow> magnitude_of angular_v mag_0 mag_lev w_pix level =
     (let magnitude = Fin (if log 10 level \<le> 3.2 then mag_0 * log 10 level + mag_lev
                           else - 20 * log 10 level + 64.5)
      in if fl_gt angular_v (Fin w_pix)
         then fl_sub magnitude (fl_mul (Fin 2.5) (np_log10 (np_div angular_v (Fin w_pix))))
         else magnitude)"
  by (simp add: magnitude_of_def Let_def)

lemma magnitude_of_finite:
  assumes "0 < level" "0 < w_pix"
  shows "magnitude_of (Fin v) mag_0 mag_lev w_pix level =
     Fin ((if log 10 level \<le> 3.2 then mag_0 * log 10 level + mag_lev
           else - 20 * log 10 level + 64.5)
          - (if v > w_pix then 2.5 * log 10 (v / w_pix) else 0))"
proof (cases "v > w_pix")
  case True
  with assms have "0 < v / w_pix" by simp
  with True assms show ?thesis by (simp add: magnitude_of_def Let_def fl_sub_def)
next
  case False
  with assms show ?thesis by (simp add: magnitude_of_def Let_def)
qed

lemma log10_100: "log 10 100 = (2 :: real)"
  using log_pow_cancel [of "10 :: real" 2] by simp

lemma log10_10000: "log 10 10000 = (4 :: real)"
  using log_pow_cancel [of "10 :: real" 4] by simp

lemma great_circle_distance_quarter: "great_circle_distance 0 0 90 0 = 90"
  by (simp add: great_circle_distance_def radians_def degrees_def)

lemma angular_velocity_single: "angular_velocity ra ra dec dec 0 = NaN"
proof -
  have "sin (radians dec) * sin (radians dec) + cos (radians dec) * cos (radians dec) = 1"
    using sin_cos_squared_add [of "radians dec"] by (simp add: power2_eq_square)
  then show ?thesis
    by (simp add: angular_velocity_eq great_circle_distance_def degrees_def)
qed

subsection \<open>Arrays and records\<close>

lemma mapE_length: "mapE f xs = Inr ys \<Longrightarrow> length ys = length xs"
proof (induction xs arbitrary: ys)
  case Nil
  then show ?case by simp
next
  case (Cons x xs)
  then show ?case by (auto simp: bindE_def split: sum.splits)
qed

lemma correct_loop_correct:
  "correct_loop (cm_x_poly cal) (cm_y_poly cal) (cm_X_res cal) (cm_Y_res cal) (cm_F_scale cal)
     (zip (map dp_x track) (zip (map dp_y track) (map dp_level track)))
   = bindE (correct cal track) (\<lambda>cps.
       Inr (map cp_x_corr cps, map cp_y_corr cps, map cp_level_corr cps))"
proof (induction track)
  case Nil
  then show ?case by (simp add: correct_def)
next
  case (Cons p track)
  then show ?case
    by (simp add: correct_def bindE_def split: sum.splits prod.splits)
qed

lemma project_loop_project:
  "project_loop (cm_lat cal) (cm_lon cal) (cm_RA_center cal) (cm_Dec_center cal)
     (cm_reference_hour_angle cal) (cm_rot_param cal)
     (zip (map cp_x_corr cps) (map cp_y_corr cps))
   = bindE (project cal cps) (\<lambda>sps. Inr (map sp_azimuth sps, map sp_altitude sps))"
proof (induction cps)
  case Nil
  then show ?case by (simp add: project_def)
next
  case (Cons c cps)
  then show ?case
    by (simp add: project_def bindE_def split: sum.splits prod.splits)
qed

lemma convert_loop_toEquatorial:
  "length time_data = length sps \<Longrightarrow>
   convert_loop date2JD (cm_lat cal) (cm_lon cal) (cm_UT_correction cal) time_data
     (zip (map sp_azimuth sps) (map sp_altitude sps))
   = bindE (toEquatorial date2JD cal sps time_data) (\<lambda>eps.
       Inr (map ep_julian_date eps, map ep_ra eps, map ep_dec eps))"
proof (induction sps arbitrary: time_data)
  case Nil
  then show ?case by (simp add: toEquatorial_def)
next
  case (Cons s sps)
  then obtain t ts where t: "time_data = t # ts" "length ts = length sps"
    by (cases time_data) auto
  from Cons.IH [OF t(2)] show ?case unfolding t
    by (simp add: toEquatorial_def bindE_def split: sum.splits prod.splits)
qed

lemma first_item_map: "xs \<noteq> [] \<Longrightarrow> first_item (map f xs) = Inr (f (hd xs))"
  by (cases xs) (simp_all add: first_item_def)

lemma last_item_map: "xs \<noteq> [] \<Longrightarrow> last_item (map f xs) = Inr (f (last xs))"
  by (cases xs) (simp_all add: last_item_def last_map)

subsection \<open>The results of the orchestrator\<close>







subsection \<open>The pipeline on a track of one point\<close>

lemma applyFieldCorrection_offset_point:
  "applyFieldCorrection (- 192 # replicate 11 0) (- 192 # replicate 11 0) 720 576 1 [720] [672] [100]
     = Inr ([0], [0], [100])"
  by (simp add: applyFieldCorrection_def vstack3_def correct_point_def X_scale_of_def Y_scale_of_def
      cif_X_def cif_Y_def vignetting_def vignetting_radius_def X_pix_of_def Y_pix_of_def)


lemma XY2altAz_origin: "XY2altAz 0 0 0 0 0 90 [0] [0] = Inr ([0], [90])"
  by (simp add: XY2altAz_def vstack2_def project_point_origin)

lemma altAz2RADec_zenith:
  "altAz2RADec (\<lambda>t u. 2451545) 0 0 0 [t] [0] [90] = Inr ([2451545], [280.46061837], [0])"
  by (simp add: altAz2RADec_def vstack2_def convert_point_zenith)


lemma calculateMagnitudes_single:
  "calculateMagnitudes [100] ra ra dec dec 0 mag_0 mag_lev w_pix = [Fin (mag_0 * 2 + mag_lev)]"
  by (simp add: calculateMagnitudes_def angular_velocity_single magnitude_of_def log10_100)

lemma pipeline_single_point:
  "XY2CorrectedRADec (\<lambda>t u. 2451545) [(2000, 1, 1, 12, 0, 0, 0)] [720] [672] [100]
       0 0 0 0 720 576 0 0 90 1 1 (- 2.5) 10 (- 192 # replicate 11 0) (- 192 # replicate 11 0)
     = Inr ([2451545], [280.46061837], [0], [Fin 5])"
  by (simp add: XY2CorrectedRADec_def applyFieldCorrection_offset_point XY2altAz_origin
      altAz2RADec_zenith first_item_def last_item_def calculateMagnitudes_single)






subsection \<open>The index carried through the pairing\<close>

lemma closest_point_selected:
  assumes h: "hint < length B" and c: "closest_point t1 B hint = Inr (k, d)"
  shows "selected_from B hint t1 k"
proof -
  note P = closest_point_props [OF h c]
  have T: "if \<bar>t1 - point_time (B ! hint)\<bar> = d then k = hint
       else \<forall>j < k. d < \<bar>t1 - point_time (B ! j)\<bar>"
  proof (cases "\<bar>t1 - point_time (B ! hint)\<bar> = d")
    case True
    from P(4) [OF True] True show ?thesis by simp
  next
    case False
    from P(5) [OF False] False show ?thesis by simp
  qed
  from P(1) P(3) T show ?thesis unfolding selected_from_def P(2) by (intro conjI)
qed

lemma pair_loop_trace:
  "hint < length B \<Longrightarrow>
   \<exists>ks. length ks = length A \<and>
     (\<forall>i < length A.
        selected_from B (if i = 0 then hint else ks ! (i - 1)) (point_time (A ! i)) (ks ! i)) \<and>
     pair_loop A B dt hint =
       Inr (map (\<lambda>(a, k). (a, B ! k))
              (filter (\<lambda>(a, k). \<bar>point_time a - point_time (B ! k)\<bar> < dt) (zip A ks)))"
proof (induction A arbitrary: hint)
  case Nil
  then show ?case by simp
next
  case (Cons a A)
  from closest_point_total [OF Cons.prems] obtain k d
    where c: "closest_point (point_time a) B hint = Inr (k, d)" by blast
  note P = closest_point_props [OF Cons.prems c]
  note S = closest_point_selected [OF Cons.prems c]
  from Cons.IH [OF P(1)] obtain ks where l: "length ks = length A"
    and sel: "\<forall>i < length A.
        selected_from B (if i = 0 then k else ks ! (i - 1)) (point_time (A ! i)) (ks ! i)"
    and r: "pair_loop A B dt k =
       Inr (map (\<lambda>(a, k). (a, B ! k))
              (filter (\<lambda>(a, k). \<bar>point_time a - point_time (B ! k)\<bar> < dt) (zip A ks)))"
    by blast
  have sel': "\<forall>i < length (a # A).
        selected_from B (if i = 0 then hint else (k # ks) ! (i - 1))
          (point_time ((a # A) ! i)) ((k # ks) ! i)"
  proof (intro allI impI)
    fix i assume i: "i < length (a # A)"
    show "selected_from B (if i = 0 then hint else (k # ks) ! (i - 1))
          (point_time ((a # A) ! i)) ((k # ks) ! i)"
    proof (cases i)
      case 0
      with S show ?thesis by simp
    next
      case (Suc n)
      with i have n: "n < length A" by simp
      have "(if n = 0 then k else ks ! (n - 1)) = (k # ks) ! n" by (cases n) simp_all
      with sel [rule_format, OF n] Suc show ?thesis by simp
    qed
  qed
  have "pair_loop (a # A) B dt hint =
       Inr (map (\<lambda>(a, k). (a, B ! k))
              (filter (\<lambda>(a, k). \<bar>point_time a - point_time (B ! k)\<bar> < dt) (zip (a # A) (k # ks))))"
    using c r P(1) unfolding P(2) by (simp add: item_def)
  with l sel' show ?case by (intro exI [of _ "k # ks"] conjI) simp_all
qed

subsection \<open>The remainder at a tiny negative angle\<close>





lemma sin_cos_quarter [simp]:
  "sin (radians (- 90)) = - 1" "cos (radians (- 90)) = 0" "radians 0 = 0"
  by (simp_all add: radians_def)





subsection \<open>The lengths of the results of the stages\<close>





section \<open>The distortion and vignetting corrector\<close>

lemma correct_point_center:
  "correct_point (replicate 12 0) (replicate 12 0) 720 576 1 (360, 288, 100)
     = Inr (0, 0, 100 * (1 + 0.00245 * (vignetting_radius 0 0 - 120)))"
  using vignetting_radius_center
  by (simp add: correct_point_def X_scale_of_def Y_scale_of_def cif_X_def cif_Y_def
      vignetting_def X_pix_of_def Y_pix_of_def)

lemma applyFieldCorrection_center:
  "applyFieldCorrection (replicate 12 0) (replicate 12 0) 720 576 1 [360] [288] [100]
     = Inr ([0], [0], [100 * (1 + 0.00245 * (vignetting_radius 0 0 - 120))])"
  using correct_point_center by (simp add: applyFieldCorrection_def vstack3_def)

text \<open>
  Claim C1, as the specification states it: for the calibration with twelve zero
  coefficients in both polynomials, \<open>X_res = 720\<close>, \<open>Y_res = 576\<close> and
  \<open>F_scale = 1\<close>, the corrector maps the detection point \<open>(360, 288)\<close> of level 100
  to \<open>(0, 0)\<close> and leaves the level at 100, because the vignetting radius is 0.
  The source does not: the point has the CIF coordinates \<open>(0, 0)\<close>, and the radius of
  the vignetting test is measured from \<open>(192, 192)\<close>, so it is \<open>192 * sqrt 2\<close>, about
  271.5, and the level is multiplied.
\<close>

theorem corrector_center_level_changed:
  "applyFieldCorrection (replicate 12 0) (replicate 12 0) 720 576 1 [360] [288] [100]
     \<noteq> Inr ([0], [0], [100])"
  using vignetting_radius_center unfolding applyFieldCorrection_center by simp

text \<open>
  Claim C1, amended: on that input the corrector returns \<open>x_corr = 0\<close>,
  \<open>y_corr = 0\<close> and the level \<open>100 * (1 + 0.00245 * (192 * sqrt 2 - 120))\<close>, about
  137.12: the vignetting correction is applied, since the radius from \<open>(192, 192)\<close>
  is \<open>sqrt (192\<^sup>2 + 192\<^sup>2) > 120\<close>.
\<close>

theorem corrector_center_vignetted:
  "applyFieldCorrection (replicate 12 0) (replicate 12 0) 720 576 1 [360] [288] [100]
     = Inr ([0], [0], [100 * (1 + 0.00245 * (sqrt (192 ^ 2 + 192 ^ 2) - 120))])
   \<and> sqrt (192 ^ 2 + 192 ^ 2) > (120 :: real)"
  using vignetting_radius_center unfolding applyFieldCorrection_center
  by (simp add: vignetting_radius_def)

text \<open>
  Claim C9, as the specification states it: for every fixed level, beyond the radius
  of 120 the corrected level grows strictly with the radius. The level is multiplied by
  \<open>1 + 0.00245 * (r - 120)\<close>, so a level of 0 stays 0 at every radius: here two points
  of level 0, both beyond 120 and the second farther out, get the same corrected level.
\<close>

theorem vignetting_constant_at_level_zero:
  "applyFieldCorrection (replicate 12 0) (replicate 12 0) 720 576 1 [360] [288] [0] = Inr ([0], [0], [0])
   \<and> applyFieldCorrection (replicate 12 0) (replicate 12 0) 720 576 1 [0] [0] [0] = Inr ([- 192], [- 144], [0])
   \<and> 120 < vignetting_radius (cif_X 720 360) (cif_Y 576 288)
   \<and> vignetting_radius (cif_X 720 360) (cif_Y 576 288) < vignetting_radius (cif_X 720 0) (cif_Y 576 0)"
  using vignetting_radius_center vignetting_radius_corner by (simp add: applyFieldCorrection_zero_poly cif_examples vignetting_def)

text \<open>
  Claim C9, amended: for every fixed positive level, when two detection points of that
  level have vignetting radii \<open>r1 < r2\<close> in the CIF coordinates, both beyond 120, the
  corrected level the corrector returns for the second is strictly greater than the one
  it returns for the first.
\<close>

theorem vignetting_strictly_increasing_positive_level:
  "applyFieldCorrection x_poly y_poly X_res Y_res F_scale [x1] [y1] [level] = Inr (Xc1, Yc1, Lc1) \<Longrightarrow>
   applyFieldCorrection x_poly y_poly X_res Y_res F_scale [x2] [y2] [level] = Inr (Xc2, Yc2, Lc2) \<Longrightarrow>
   0 < level \<Longrightarrow>
   120 < vignetting_radius (cif_X X_res x1) (cif_Y Y_res y1) \<Longrightarrow>
   vignetting_radius (cif_X X_res x1) (cif_Y Y_res y1)
     < vignetting_radius (cif_X X_res x2) (cif_Y Y_res y2) \<Longrightarrow>
   \<exists>l1 l2. Lc1 = [l1] \<and> Lc2 = [l2] \<and> l1 < l2"
proof -
  assume a1: "applyFieldCorrection x_poly y_poly X_res Y_res F_scale [x1] [y1] [level] = Inr (Xc1, Yc1, Lc1)"
    and a2: "applyFieldCorrection x_poly y_poly X_res Y_res F_scale [x2] [y2] [level] = Inr (Xc2, Yc2, Lc2)"
    and pos: "0 < level"
    and r1: "120 < vignetting_radius (cif_X X_res x1) (cif_Y Y_res y1)"
    and r2: "vignetting_radius (cif_X X_res x1) (cif_Y Y_res y1)
     < vignetting_radius (cif_X X_res x2) (cif_Y Y_res y2)"
  from a1 have "correct_loop x_poly y_poly X_res Y_res F_scale [(x1, y1, level)] = Inr (Xc1, Yc1, Lc1)"
    by (simp add: applyFieldCorrection_def vstack3_def bindE_def)
  from correct_loop_Inr [OF this]
  have l1: "Lc1 = [vignetting (cif_X X_res x1) (cif_Y Y_res y1) level]" by simp
  from a2 have "correct_loop x_poly y_poly X_res Y_res F_scale [(x2, y2, level)] = Inr (Xc2, Yc2, Lc2)"
    by (simp add: applyFieldCorrection_def vstack3_def bindE_def)
  from correct_loop_Inr [OF this]
  have l2: "Lc2 = [vignetting (cif_X X_res x2) (cif_Y Y_res y2) level]" by simp
  from vignetting_strict_mono [OF pos r1 r2] l1 l2 show ?thesis by simp
qed

theorem vignetting_strictly_increasing_positive_level_witness:
  "applyFieldCorrection (replicate 12 0) (replicate 12 0) 720 576 1 [360] [288] [100]
     = Inr ([0], [0], [vignetting 0 0 100])
   \<and> applyFieldCorrection (replicate 12 0) (replicate 12 0) 720 576 1 [0] [0] [100]
     = Inr ([- 192], [- 144], [vignetting (- 192) (- 144) 100])
   \<and> vignetting 0 0 100 < vignetting (- 192) (- 144) 100"
proof -
  have e1: "applyFieldCorrection (replicate 12 0) (replicate 12 0) 720 576 1 [360] [288] [100]
     = Inr ([0], [0], [vignetting 0 0 100])"
    and e2: "applyFieldCorrection (replicate 12 0) (replicate 12 0) 720 576 1 [0] [0] [100]
     = Inr ([- 192], [- 144], [vignetting (- 192) (- 144) 100])"
    by (simp_all add: applyFieldCorrection_zero_poly cif_examples)
  have r1: "120 < vignetting_radius (cif_X 720 360) (cif_Y 576 288)"
    and r2: "vignetting_radius (cif_X 720 360) (cif_Y 576 288) < vignetting_radius (cif_X 720 0) (cif_Y 576 0)"
    using vignetting_radius_center vignetting_radius_corner by (simp_all add: cif_examples)
  from vignetting_strictly_increasing_positive_level [OF e1 e2 _ r1 r2] have "vignetting 0 0 100 < vignetting (- 192) (- 144) 100" by simp
  with e1 e2 show ?thesis by simp
qed




section \<open>The sky projector and the equatorial converter\<close>




section \<open>The magnitude estimator\<close>

text \<open>
  Claim C5: when all levels are positive, the angular velocity is the length of the
  track by the spherical law of cosines divided by the duration (in the arithmetic of
  numpy, where a division by zero gives an infinity or a NaN), and the magnitude of a
  level is \<open>mag_0 * log10 level + mag_lev\<close> when \<open>log10 level \<le> 3.2\<close> and
  \<open>-20 * log10 level + 64.5\<close> otherwise, less \<open>2.5 * log10 (angular_v / w_pix)\<close>
  exactly when the angular velocity is greater than \<open>w_pix\<close>. For a duration other
  than 0 and a positive \<open>w_pix\<close> all values are finite and the formula is the one on
  real numbers.
\<close>

theorem magnitude_estimator_formula:
  "\<forall>level \<in> set level_data. 0 < level \<Longrightarrow>
   angular_velocity ra_beg ra_end dec_beg dec_end duration
     = np_div (Fin (great_circle_distance ra_beg dec_beg ra_end dec_end)) (Fin duration)
   \<and> calculateMagnitudes level_data ra_beg ra_end dec_beg dec_end duration mag_0 mag_lev w_pix
     = map (\<lambda>level.
         let magnitude = Fin (if log 10 level \<le> 3.2 then mag_0 * log 10 level + mag_lev
                               else - 20 * log 10 level + 64.5)
         in if fl_gt (angular_velocity ra_beg ra_end dec_beg dec_end duration) (Fin w_pix)
            then fl_sub magnitude (fl_mul (Fin 2.5)
                   (np_log10 (np_div (angular_velocity ra_beg ra_end dec_beg dec_end duration)
                      (Fin w_pix))))
            else magnitude) level_data
   \<and> (duration \<noteq> 0 \<and> 0 < w_pix \<longrightarrow>
        calculateMagnitudes level_data ra_beg ra_end dec_beg dec_end duration mag_0 mag_lev w_pix
          = map (\<lambda>level. Fin (
              (if log 10 level \<le> 3.2 then mag_0 * log 10 level + mag_lev
               else - 20 * log 10 level + 64.5)
              - (if great_circle_distance ra_beg dec_beg ra_end dec_end / duration > w_pix
                 then 2.5 * log 10 (great_circle_distance ra_beg dec_beg ra_end dec_end
                        / duration / w_pix)
                 else 0))) level_data)"
proof (intro conjI impI)
  assume pos: "\<forall>level \<in> set level_data. 0 < level"
  show "angular_velocity ra_beg ra_end dec_beg dec_end duration
     = np_div (Fin (great_circle_distance ra_beg dec_beg ra_end dec_end)) (Fin duration)"
    by (rule angular_velocity_eq)
  from pos show "calculateMagnitudes level_data ra_beg ra_end dec_beg dec_end duration mag_0 mag_lev w_pix
     = map (\<lambda>level.
         let magnitude = Fin (if log 10 level \<le> 3.2 then mag_0 * log 10 level + mag_lev
                               else - 20 * log 10 level + 64.5)
         in if fl_gt (angular_velocity ra_beg ra_end dec_beg dec_end duration) (Fin w_pix)
            then fl_sub magnitude (fl_mul (Fin 2.5)
                   (np_log10 (np_div (angular_velocity ra_beg ra_end dec_beg dec_end duration)
                      (Fin w_pix))))
            else magnitude) level_data"
    unfolding calculateMagnitudes_def Let_def magnitude_loop_map
    by (intro map_cong refl) (simp add: magnitude_of_positive Let_def)
  assume fin: "duration \<noteq> 0 \<and> 0 < w_pix"
  then have av: "angular_velocity ra_beg ra_end dec_beg dec_end duration
      = Fin (great_circle_distance ra_beg dec_beg ra_end dec_end / duration)"
    by (simp add: angular_velocity_eq)
  from pos fin show "calculateMagnitudes level_data ra_beg ra_end dec_beg dec_end duration mag_0 mag_lev w_pix
          = map (\<lambda>level. Fin (
              (if log 10 level \<le> 3.2 then mag_0 * log 10 level + mag_lev
               else - 20 * log 10 level + 64.5)
              - (if great_circle_distance ra_beg dec_beg ra_end dec_end / duration > w_pix
                 then 2.5 * log 10 (great_circle_distance ra_beg dec_beg ra_end dec_end
                        / duration / w_pix)
                 else 0))) level_data"
    unfolding calculateMagnitudes_def Let_def magnitude_loop_map av
    by (intro map_cong refl) (simp add: magnitude_of_finite)
qed

theorem magnitude_estimator_formula_witness:
  "calculateMagnitudes [100, 10000] 0 90 0 0 10 (- 2.5) 10 3
     = [Fin (5 - 2.5 * log 10 3), Fin (- 15.5 - 2.5 * log 10 3)]"
proof -
  have p: "\<forall>level \<in> set [100, 10000 :: real]. 0 < level" by simp
  have f: "(10 :: real) \<noteq> 0 \<and> (0 :: real) < 3" by simp
  from magnitude_estimator_formula [OF p, THEN conjunct2, THEN conjunct2, THEN mp, OF f, of 0 90 0 0 "- 2.5" 10]
  show ?thesis by (simp add: great_circle_distance_quarter log10_100 log10_10000)
qed

section \<open>The pipeline orchestrator\<close>




text \<open>
  Claim C4: for a track with at least one point, the result of \<open>XY2CorrectedRADec\<close>
  on the parallel arrays of the track is the result of the composition of the corrector,
  the projector and the converter on the records of the track, each stage taking the
  output of the stage before, with the magnitudes computed from the corrected levels,
  the right ascension and declination of the first and the last converted point, and the
  duration \<open>(JD_last - JD_first) * 86400\<close>; an exception of a stage is the exception of
  the whole.
\<close>

theorem orchestrator_is_stage_composition:
  "track \<noteq> [] \<Longrightarrow>
   XY2CorrectedRADec date2JD (map dp_time track) (map dp_x track) (map dp_y track)
       (map dp_level track) (cm_UT_correction cal) (cm_lat cal) (cm_lon cal)
       (cm_reference_hour_angle cal) (cm_X_res cal) (cm_Y_res cal) (cm_RA_center cal)
       (cm_Dec_center cal) (cm_rot_param cal) (cm_F_scale cal) (cm_w_pix cal)
       (cm_mag_slope cal) (cm_mag_intercept cal) (cm_x_poly cal) (cm_y_poly cal)
     = run_pipeline date2JD cal track"
proof -
  assume ne: "track \<noteq> []"
  show ?thesis
  proof (cases "correct cal track")
    case (Inl e)
    then show ?thesis
      by (simp add: XY2CorrectedRADec_def run_pipeline_def applyFieldCorrection_def vstack3_def
          correct_loop_correct)
  next
    case c: (Inr cps)
    from mapE_length [OF c [unfolded correct_def]] have lc: "length cps = length track" .
    show ?thesis
    proof (cases "project cal cps")
      case (Inl e)
      with c show ?thesis
        by (simp add: XY2CorrectedRADec_def run_pipeline_def applyFieldCorrection_def vstack3_def
            correct_loop_correct XY2altAz_def vstack2_def project_loop_project)
    next
      case p: (Inr sps)
      from mapE_length [OF p [unfolded project_def]] lc have ls: "length sps = length track" by simp
      then have lt: "length (map dp_time track) = length sps" by simp
      show ?thesis
      proof (cases "toEquatorial date2JD cal sps (map dp_time track)")
        case (Inl e)
        with c p show ?thesis
          by (simp add: XY2CorrectedRADec_def run_pipeline_def applyFieldCorrection_def vstack3_def
              correct_loop_correct XY2altAz_def vstack2_def project_loop_project
              altAz2RADec_def convert_loop_toEquatorial [OF lt])
      next
        case q: (Inr eps)
        from mapE_length [OF q [unfolded toEquatorial_def]] ls ne have "eps \<noteq> []" by auto
        with c p q show ?thesis
          by (simp add: XY2CorrectedRADec_def run_pipeline_def applyFieldCorrection_def vstack3_def
              correct_loop_correct XY2altAz_def vstack2_def project_loop_project
              altAz2RADec_def convert_loop_toEquatorial [OF lt] first_item_map last_item_map Let_def)
      qed
    qed
  qed
qed

theorem orchestrator_is_stage_composition_witness:
  "run_pipeline (\<lambda>t u. 2451545)
     \<lparr>cm_x_poly = - 192 # replicate 11 0, cm_y_poly = - 192 # replicate 11 0,
      cm_X_res = 720, cm_Y_res = 576, cm_F_scale = 1, cm_RA_center = 0, cm_Dec_center = 0,
      cm_rot_param = 90, cm_lat = 0, cm_lon = 0, cm_UT_correction = 0,
      cm_reference_hour_angle = 0, cm_mag_slope = - 2.5, cm_mag_intercept = 10, cm_w_pix = 1\<rparr>
     [\<lparr>dp_time = (2000, 1, 1, 12, 0, 0, 0), dp_x = 720, dp_y = 672, dp_level = 100\<rparr>]
   = Inr ([2451545], [280.46061837], [0], [Fin 5])"
proof -
  have ne: "[\<lparr>dp_time = (2000 :: real, 1 :: real, 1 :: real, 12 :: real, 0 :: real, 0 :: real, 0 :: real),
     dp_x = 720, dp_y = 672, dp_level = 100\<rparr>] \<noteq> []" by simp
  let ?cal = "\<lparr>cm_x_poly = - 192 # replicate 11 0, cm_y_poly = - 192 # replicate 11 0,
      cm_X_res = 720, cm_Y_res = 576, cm_F_scale = 1, cm_RA_center = 0, cm_Dec_center = 0,
      cm_rot_param = 90, cm_lat = 0, cm_lon = 0, cm_UT_correction = 0,
      cm_reference_hour_angle = 0, cm_mag_slope = - 2.5, cm_mag_intercept = 10, cm_w_pix = 1\<rparr>"
  from orchestrator_is_stage_composition [OF ne, of "\<lambda>t u. 2451545" ?cal] pipeline_single_point show ?thesis by simp
qed

section \<open>Cross-station point pairing\<close>

text \<open>
  Claim C6, as the specification states it: the point of the second station that is
  paired with a point of the first attains the least absolute time difference, and
  among several such points the one with the smallest index is taken. The source
  keeps the index found for the point before: here the second point of the first
  station, at time 1, is as far from the points at the indices 0 and 1 (times 0
  and 2), and it is paired with the point at index 1, which the first point found.
\<close>

theorem pairing_tie_not_smallest_index:
  "findPointTimePairs [(2, 0, 0, 0), (1, 0, 0, 0)] [(0, 10, 0, 0), (2, 20, 0, 0)] 172800
     = Inr [((2, 0, 0, 0), (2, 20, 0, 0)), ((1, 0, 0, 0), (2, 20, 0, 0))]
   \<and> \<bar>point_time (1, 0, 0, 0) - point_time ([(0, 10, 0, 0), (2, 20, 0, 0)] ! 0)\<bar>
     = \<bar>point_time (1, 0, 0, 0) - point_time ([(0, 10, 0, 0), (2, 20, 0, 0)] ! 1)\<bar>
   \<and> [(0, 10, 0, 0), (2, 20, 0, 0)] ! 0 \<noteq> ((2, 20, 0, 0) :: point)"
  by (simp add: findPointTimePairs_def closest_point_def item_def point_time_def)

text \<open>
  Claim C6, amended: for a second station with at least one point the pairing raises
  nothing, and there is one index \<open>k\<close> of the second station for every point of the
  first, in order, such that: the point at \<open>k\<close> attains the least absolute time
  difference to the point of the first station over all points of the second (the indices
  need not grow); when several points attain it, \<open>k\<close> is the index chosen for the point
  before (0 for the first point) if the point there attains it, and the smallest index
  that attains it otherwise; and the pairs returned are, in order, the points of the
  first station with the point at their index, for the points whose difference is below
  \<open>max_dt / 86400\<close>.
\<close>

theorem pairing_selects_global_minimum_hint_first:
  "points2 \<noteq> [] \<Longrightarrow>
   \<exists>ks. length ks = length points1 \<and>
     (\<forall>i < length points1.
        selected_from points2 (if i = 0 then 0 else ks ! (i - 1))
          (point_time (points1 ! i)) (ks ! i)) \<and>
     findPointTimePairs points1 points2 max_dt =
       Inr (map (\<lambda>(a, k). (a, points2 ! k))
              (filter (\<lambda>(a, k). \<bar>point_time a - point_time (points2 ! k)\<bar> < max_dt / 86400)
                 (zip points1 ks)))"
proof -
  assume "points2 \<noteq> []"
  then have "0 < length points2" by simp
  from pair_loop_trace [OF this, of points1 "max_dt / 60 / 60 / 24"]
  show ?thesis by (simp add: findPointTimePairs_def)
qed

theorem pairing_selects_global_minimum_hint_first_witness:
  "findPointTimePairs [(2, 0, 0, 0), (1, 0, 0, 0)] [(0, 10, 0, 0), (2, 20, 0, 0)] 172800
     = Inr [((2, 0, 0, 0), (2, 20, 0, 0)), ((1, 0, 0, 0), (2, 20, 0, 0))]
   \<and> selected_from [(0, 10, 0, 0), (2, 20, 0, 0)] 0 2 1
   \<and> selected_from [(0, 10, 0, 0), (2, 20, 0, 0)] 1 1 1
   \<and> \<not> selected_from [(0, 10, 0, 0), (2, 20, 0, 0)] 1 1 0"
proof -
  let ?A = "[(2, 0, 0, 0), (1, 0, 0, 0)] :: point list"
  let ?B = "[(0, 10, 0, 0), (2, 20, 0, 0)] :: point list"
  have h: "?B \<noteq> []" by simp
  from pairing_selects_global_minimum_hint_first [OF h, of ?A 172800]
  obtain ks :: "nat list" where l: "length ks = length ?A"
    and sel: "\<forall>i < length ?A.
        selected_from ?B (if i = 0 then 0 else ks ! (i - 1)) (point_time (?A ! i)) (ks ! i)"
    and r: "findPointTimePairs ?A ?B 172800 =
       Inr (map (\<lambda>(a, k). (a, ?B ! k))
              (filter (\<lambda>(a, k). \<bar>point_time a - point_time (?B ! k)\<bar> < 172800 / 86400)
                 (zip ?A ks)))"
    by blast
  from l obtain k0 k1 where ks: "ks = [k0, k1]"
    by (cases ks; cases "tl ks") auto
  from sel [rule_format, of 0] have s0: "selected_from ?B 0 2 k0"
    by (simp add: ks point_time_def)
  from sel [rule_format, of 1] have s1: "selected_from ?B k0 1 k1"
    by (simp add: ks point_time_def)
  from s0 have b0: "k0 < length ?B"
    and m0: "\<forall>j < length ?B. \<bar>2 - point_time (?B ! k0)\<bar> \<le> \<bar>2 - point_time (?B ! j)\<bar>"
    unfolding selected_from_def by blast+
  from m0 [rule_format, of 1] have "\<bar>2 - point_time (?B ! k0)\<bar> \<le> 0"
    by (simp add: point_time_def)
  with b0 have k0: "k0 = 1"
    by (cases "k0 = 0") (simp_all add: point_time_def)
  from s1 have b1: "k1 < length ?B"
    and t1: "if \<bar>1 - point_time (?B ! 1)\<bar> = \<bar>1 - point_time (?B ! k1)\<bar> then k1 = 1
       else \<forall>j < k1. \<bar>1 - point_time (?B ! k1)\<bar> < \<bar>1 - point_time (?B ! j)\<bar>"
    unfolding selected_from_def k0 by blast+
  from b1 t1 have k1: "k1 = 1"
    by (cases "k1 = 0") (simp_all add: point_time_def)
  from r have e: "findPointTimePairs ?A ?B 172800
     = Inr [((2, 0, 0, 0), (2, 20, 0, 0)), ((1, 0, 0, 0), (2, 20, 0, 0))]"
    by (simp add: ks k0 k1 point_time_def)
  have s: "selected_from ?B 0 2 1" "selected_from ?B 1 1 1" "\<not> selected_from ?B 1 1 0"
    by (simp_all add: selected_from_def point_time_def nth_Cons' less_Suc_eq numeral_2_eq_2)
  from e s show ?thesis by (intro conjI)
qed

text \<open>
  Claim C7, as the specification states it: a point of the first station with no match
  below the threshold is skipped with no error. With no point in the second station no
  point of the first has a match, and the pairing raises \<^verbatim>\<open>IndexError\<close> instead of
  returning the empty list.
\<close>

theorem pairing_unmatched_point_raises_on_empty_B:
  "findPointTimePairs [(0, 0, 0, 0)] [] 1 = Inl IndexError
   \<and> findPointTimePairs [(0, 0, 0, 0)] [] 1 \<noteq> Inr []"
  by (simp add: findPointTimePairs_def closest_point_def item_def)

text \<open>
  Claim C7, amended: for a second station with at least one point (or no point at all
  in the first), the pairing raises nothing; the first components of the pairs are, in
  their order, the points of the first station whose least absolute time difference to
  the second station is below \<open>max_dt / 86400\<close>, every other point being left out; the
  second component of a pair attains that least difference. When every point of the
  first station has a point of the same time in the second and \<open>max_dt\<close> is positive,
  there is one pair for every point of the first station, in order, and the two times
  of a pair are equal.
\<close>

theorem pairing_emits_iff_below_threshold:
  "points2 \<noteq> [] \<or> points1 = [] \<Longrightarrow>
   \<exists>ps. findPointTimePairs points1 points2 max_dt = Inr ps \<and>
     map fst ps = filter (\<lambda>a. min_time_difference points2 (point_time a) < max_dt / 86400) points1 \<and>
     (\<forall>(a, b) \<in> set ps. b \<in> set points2 \<and>
        \<bar>point_time a - point_time b\<bar> = min_time_difference points2 (point_time a)) \<and>
     ((\<forall>a \<in> set points1. \<exists>b \<in> set points2. point_time b = point_time a) \<and> 0 < max_dt \<longrightarrow>
        map fst ps = points1 \<and> (\<forall>(a, b) \<in> set ps. \<bar>point_time a - point_time b\<bar> = 0))"
proof -
  assume a: "points2 \<noteq> [] \<or> points1 = []"
  from findPointTimePairs_props [OF a, of max_dt] obtain ps where
    r: "findPointTimePairs points1 points2 max_dt = Inr ps"
    and f: "map fst ps = filter (\<lambda>a. min_time_difference points2 (point_time a) < max_dt / 86400) points1"
    and m: "\<forall>(a, b) \<in> set ps. b \<in> set points2 \<and>
        \<bar>point_time a - point_time b\<bar> = min_time_difference points2 (point_time a)"
    by blast
  have "map fst ps = points1 \<and> (\<forall>(a, b) \<in> set ps. \<bar>point_time a - point_time b\<bar> = 0)"
    if tw: "\<forall>a \<in> set points1. \<exists>b \<in> set points2. point_time b = point_time a" and pos: "0 < max_dt"
  proof -
    have z: "min_time_difference points2 (point_time a) = 0" if "a \<in> set points1" for a
      using tw that min_time_difference_twin by blast
    with pos have "filter (\<lambda>a. min_time_difference points2 (point_time a) < max_dt / 86400) points1 = points1"
      by (simp add: filter_id_conv)
    with f have e: "map fst ps = points1" by simp
    have "\<bar>point_time a - point_time b\<bar> = 0" if "(a, b) \<in> set ps" for a b
    proof -
      from that have "a \<in> set (map fst ps)" by force
      with e have "a \<in> set points1" by simp
      with z m that show ?thesis by fastforce
    qed
    with e show ?thesis by blast
  qed
  with r f m show ?thesis by blast
qed

theorem pairing_emits_iff_below_threshold_witness:
  "findPointTimePairs [(5, 1, 1, 1), (7, 2, 2, 2)] [(7, 3, 3, 3), (5, 4, 4, 4)] 1
     = Inr [((5, 1, 1, 1), (5, 4, 4, 4)), ((7, 2, 2, 2), (7, 3, 3, 3))]
   \<and> findPointTimePairs [(5, 1, 1, 1), (9, 2, 2, 2)] [(7, 3, 3, 3), (5, 4, 4, 4)] 86400
     = Inr [((5, 1, 1, 1), (5, 4, 4, 4))]"
proof -
  have h: "[(7, 3, 3, 3), (5, 4, 4, 4)] \<noteq> ([] :: point list)
      \<or> [(5, 1, 1, 1), (7, 2, 2, 2)] = ([] :: point list)"
    by simp
  from pairing_emits_iff_below_threshold [OF h, of 1] obtain ps where
    r: "findPointTimePairs [(5, 1, 1, 1), (7, 2, 2, 2)] [(7, 3, 3, 3), (5, 4, 4, 4)] 1 = Inr ps"
    by blast
  have e1: "findPointTimePairs [(5, 1, 1, 1), (7, 2, 2, 2)] [(7, 3, 3, 3), (5, 4, 4, 4)] 1
     = Inr [((5, 1, 1, 1), (5, 4, 4, 4)), ((7, 2, 2, 2), (7, 3, 3, 3))]"
    by (simp add: findPointTimePairs_def closest_point_def item_def point_time_def)
  have e2: "findPointTimePairs [(5, 1, 1, 1), (9, 2, 2, 2)] [(7, 3, 3, 3), (5, 4, 4, 4)] 86400
     = Inr [((5, 1, 1, 1), (5, 4, 4, 4))]"
    by (simp add: findPointTimePairs_def closest_point_def item_def point_time_def)
  from r e1 e2 show ?thesis by simp
qed

text \<open>
  Claim C10: when the first station has a point and the second has none, the pairing
  returns no list: reading the point of the second station at the starting index 0
  raises \<^verbatim>\<open>IndexError\<close>.
\<close>

theorem pairing_empty_station_B_IndexError: "points1 \<noteq> [] \<Longrightarrow> findPointTimePairs points1 [] max_dt = Inl IndexError"
  by (cases points1) (simp_all add: findPointTimePairs_def closest_point_def item_def)

theorem pairing_empty_station_B_IndexError_witness:
  "findPointTimePairs [(2451545, 10, 20, 1)] [] 2 = Inl IndexError"
  using pairing_empty_station_B_IndexError [of "[(2451545, 10, 20, 1)]" 2] by simp

end
